theory Spec2Isabelle
  imports Main
begin

section \<open>JavaScript values\<close>

text \<open>
  Theme documents, content blocks and request bodies reach the code as parsed JSON
  (TypeScript type \<^verbatim>\<open>any\<close> or \<^verbatim>\<open>unknown\<close>). A value that may be
  \<^verbatim>\<open>undefined\<close> is a \<open>json option\<close> with \<open>None\<close> for \<^verbatim>\<open>undefined\<close>.
  Numbers are the integral ones; strings are lists of code units.
\<close>

datatype json =
    JNull
  | JBool bool
  | JNum int
  | JStr string
  | JArr "json list"
  | JObj "(string \<times> json) list"

text \<open>
  An object literal such as \<^verbatim>\<open>{ sm: "8px" }\<close> or \<^verbatim>\<open>{}\<close> inherits from
  \<^verbatim>\<open>Object.prototype\<close>. Reading \<^verbatim>\<open>obj[k]\<close> finds the object's own property
  first and otherwise the inherited member of that name, which is a function (or, for
  \<^verbatim>\<open>__proto__\<close>, the prototype object): never a string, never \<^verbatim>\<open>undefined\<close>,
  never falsy.
\<close>

definition objectPrototypeKeys :: "string list" where
  "objectPrototypeKeys =
     [''constructor'', ''hasOwnProperty'', ''isPrototypeOf'', ''propertyIsEnumerable'',
      ''toLocaleString'', ''toString'', ''valueOf'', ''__proto__'',
      ''__defineGetter__'', ''__defineSetter__'', ''__lookupGetter__'', ''__lookupSetter__'']"

datatype propval =
    Own string           \<comment> \<open>a string, own property or literal\<close>
  | Inherited string     \<comment> \<open>the member of \<^verbatim>\<open>Object.prototype\<close> with this name\<close>

definition getProp :: "(string \<rightharpoonup> string) \<Rightarrow> string \<Rightarrow> propval option" where
  "getProp obj k =
     (case obj k of
        Some s \<Rightarrow> Some (Own s)
      | None \<Rightarrow> if k \<in> set objectPrototypeKeys then Some (Inherited k) else None)"

section \<open>Theme Compiler: radius tokens\<close>

definition isDigit :: "char \<Rightarrow> bool" where
  "isDigit c = (c \<in> set ''0123456789'')"

text \<open>The regular expression \<^verbatim>\<open>/^\d+(px|rem|em|%)$/\<close>: one or more digits, then a unit,
  and nothing else.\<close>

definition hasUnit :: "string \<Rightarrow> string \<Rightarrow> bool" where
  "hasUnit v u =
     (length u < length v \<and> drop (length v - length u) v = u
      \<and> list_all isDigit (take (length v - length u) v))"

definition isCssLength :: "string \<Rightarrow> bool" where
  "isCssLength v = list_ex (hasUnit v) [''px'', ''rem'', ''em'', ''%'']"

definition radiusMap :: "string \<rightharpoonup> string" where
  "radiusMap =
     map_of [(''sm'', ''8px''), (''md'', ''12px''), (''lg'', ''14px''), (''xl'', ''16px''),
             (''2xl'', ''20px'')]"

definition radiusTokenToPx :: "json option \<Rightarrow> string \<Rightarrow> propval" where
  "radiusTokenToPx v fallbackPx =
     (case v of
        Some (JStr s) \<Rightarrow>
          if s = [] then Own fallbackPx
          else if isCssLength s then Own s
          else (case getProp radiusMap s of Some r \<Rightarrow> r | None \<Rightarrow> Own fallbackPx)
      | _ \<Rightarrow> Own fallbackPx)"

section \<open>Page Materializer: route to file\<close>


text \<open>\<^verbatim>\<open>replace(/^\//, "")\<close> and \<^verbatim>\<open>replace(/\/$/, "")\<close>: each removes at most one
  slash.\<close>

definition stripLeadingSlash :: "string \<Rightarrow> string" where
  "stripLeadingSlash s = (case s of c # r \<Rightarrow> if c = CHR ''/'' then r else s | [] \<Rightarrow> s)"

definition stripTrailingSlash :: "string \<Rightarrow> string" where
  "stripTrailingSlash s = (if s \<noteq> [] \<and> last s = CHR ''/'' then butlast s else s)"


section \<open>Renderer\<close>

subsection \<open>JavaScript operations on JSON values\<close>

datatype jsError = TypeError

definition bindE :: "jsError + 'a \<Rightarrow> ('a \<Rightarrow> jsError + 'b) \<Rightarrow> jsError + 'b" where
  "bindE r f = (case r of Inl e \<Rightarrow> Inl e | Inr x \<Rightarrow> f x)"

text \<open>
  \<open>field o k\<close> is \<^verbatim>\<open>o.k\<close> for a value \<open>o\<close> that is neither null nor undefined and a
  name \<open>k\<close> among those the renderer reads (\<^verbatim>\<open>type\<close>, \<^verbatim>\<open>enabled\<close>,
  \<^verbatim>\<open>data\<close>, \<^verbatim>\<open>h1\<close>, \<^verbatim>\<open>href\<close>, ...): an object's own property, and
  \<^verbatim>\<open>undefined\<close> on strings, numbers, booleans and arrays, none of which has a member of
  such a name. Objects come from the database's JSON columns and have distinct keys.
\<close>

definition field :: "json \<Rightarrow> string \<Rightarrow> json option" where
  "field obj k = (case obj of JObj kvs \<Rightarrow> map_of kvs k | _ \<Rightarrow> None)"

text \<open>\<^verbatim>\<open>x?.k\<close>: undefined when \<open>x\<close> is null or undefined.\<close>

definition optChain :: "json option \<Rightarrow> string \<Rightarrow> json option" where
  "optChain x k = (case x of None \<Rightarrow> None | Some JNull \<Rightarrow> None | Some obj \<Rightarrow> field obj k)"

text \<open>\<^verbatim>\<open>x.k\<close>: a TypeError when \<open>x\<close> is null or undefined.\<close>

definition dot :: "json option \<Rightarrow> string \<Rightarrow> jsError + json option" where
  "dot x k = (case x of None \<Rightarrow> Inl TypeError | Some JNull \<Rightarrow> Inl TypeError
              | Some obj \<Rightarrow> Inr (field obj k))"

text \<open>\<^verbatim>\<open>x ?? d\<close>: \<open>d\<close> when \<open>x\<close> is null or undefined.\<close>

definition nullish :: "json option \<Rightarrow> json \<Rightarrow> json" where
  "nullish x d = (case x of None \<Rightarrow> d | Some JNull \<Rightarrow> d | Some v \<Rightarrow> v)"

definition truthy :: "json option \<Rightarrow> bool" where
  "truthy x =
     (case x of
        None \<Rightarrow> False
      | Some JNull \<Rightarrow> False
      | Some (JBool b) \<Rightarrow> b
      | Some (JNum n) \<Rightarrow> n \<noteq> 0
      | Some (JStr s) \<Rightarrow> s \<noteq> []
      | Some _ \<Rightarrow> True)"

fun showNat :: "nat \<Rightarrow> string" where
  "showNat n =
     (if n < 10 then [''0123456789'' ! n]
      else showNat (n div 10) @ [''0123456789'' ! (n mod 10)])"

definition showInt :: "int \<Rightarrow> string" where
  "showInt i = (if i < 0 then CHR ''-'' # showNat (nat (- i)) else showNat (nat i))"

definition intercalate :: "string \<Rightarrow> string list \<Rightarrow> string" where
  "intercalate sep xs = (case xs of [] \<Rightarrow> [] | x # r \<Rightarrow> x @ concat (map (\<lambda>y. sep @ y) r))"

text \<open>
  String conversion in a template literal. An array joins its elements with commas, null
  elements as the empty string. An object gives \<^verbatim>\<open>[object Object]\<close>, unless it has an
  own \<^verbatim>\<open>toString\<close> property: that value is not callable, the inherited
  \<^verbatim>\<open>valueOf\<close> (or a non-callable own one) gives no primitive, and the conversion
  throws.
\<close>

fun toString :: "json \<Rightarrow> jsError + string"
  and toStrings :: "json list \<Rightarrow> jsError + string list" where
  "toString JNull = Inr ''null''"
| "toString (JBool b) = Inr (if b then ''true'' else ''false'')"
| "toString (JNum n) = Inr (showInt n)"
| "toString (JStr s) = Inr s"
| "toString (JArr xs) = (case toStrings xs of Inl e \<Rightarrow> Inl e | Inr ss \<Rightarrow> Inr (intercalate '','' ss))"
| "toString (JObj kvs) =
     (if ''toString'' \<in> set (map fst kvs) then Inl TypeError else Inr ''[object Object]'')"
| "toStrings [] = Inr []"
| "toStrings (x # xs) =
     (case (if x = JNull then Inr [] else toString x) of
        Inl e \<Rightarrow> Inl e
      | Inr s \<Rightarrow> (case toStrings xs of Inl e \<Rightarrow> Inl e | Inr ss \<Rightarrow> Inr (s # ss)))"

subsection \<open>escapeHtml\<close>

definition escapeChar :: "char \<Rightarrow> string" where
  \<open>escapeChar c =
     (if c = CHR ''&'' then ''&amp;''
      else if c = CHR ''<'' then ''&lt;''
      else if c = CHR ''>'' then ''&gt;''
      else if c = CHR 0x22 then ''&quot;''
      else if c = CHR 0x27 then ''&#39;''
      else [c])\<close>

text \<open>The five \<^verbatim>\<open>replace\<close> calls run in sequence, the ampersand first, so the
  ampersands that the later ones introduce are not escaped again: each character is
  replaced once.\<close>

definition escapeHtml :: "string \<Rightarrow> string" where
  "escapeHtml s = concat (map escapeChar s)"

text \<open>\<^verbatim>\<open>escapeHtml\<close> applied to a value of type \<^verbatim>\<open>any\<close>: a value that is not a
  string has no callable \<^verbatim>\<open>replace\<close>.\<close>

definition escapeHtmlAny :: "json option \<Rightarrow> jsError + string" where
  "escapeHtmlAny v = (case v of Some (JStr s) \<Rightarrow> Inr (escapeHtml s) | _ \<Rightarrow> Inl TypeError)"

subsection \<open>Slot Resolver\<close>

text \<open>
  A link assignment as the renderer loads it, with the target URL of its link library
  entry: \<open>la_targetUrl\<close> is \<^verbatim>\<open>a.linkLibrary?.targetUrl\<close>, \<open>None\<close> when the entry
  or its URL is missing. Fields of database rows carry a prefix for their table.
\<close>

record linkAssignment =
  la_placement :: string
  la_isEnabled :: bool
  la_targetUrl :: "string option"

text \<open>Truthiness of \<^verbatim>\<open>obj[k]\<close>: an own string is truthy unless empty, an inherited
  member always.\<close>

definition truthyProp :: "propval option \<Rightarrow> bool" where
  "truthyProp v = (case v of None \<Rightarrow> False | Some (Own s) \<Rightarrow> s \<noteq> [] | Some (Inherited k) \<Rightarrow> True)"

fun slotLoop :: "linkAssignment list \<Rightarrow> (string \<rightharpoonup> string) \<Rightarrow> (string \<rightharpoonup> string)" where
  "slotLoop [] slotUrls = slotUrls"
| "slotLoop (a # links) slotUrls =
     (if \<not> la_isEnabled a then slotLoop links slotUrls
      else if truthyProp (getProp slotUrls (la_placement a)) then slotLoop links slotUrls
      else slotLoop links
             (slotUrls(la_placement a \<mapsto> (case la_targetUrl a of Some u \<Rightarrow> u | None \<Rightarrow> ''#''))))"

definition resolveSlots :: "linkAssignment list \<Rightarrow> (string \<rightharpoonup> string)" where
  "resolveSlots links = slotLoop links Map.empty"

text \<open>The regular expression \<^verbatim>\<open>/^\{\{slot:([A-Z0-9_\-]+)\}\}$/\<close>: the whole string is
  \<^verbatim>\<open>{{slot:\<close>, a non-empty name over the character class, and \<^verbatim>\<open>}}\<close>. The
  result is the captured name.\<close>

definition slotNameChar :: "char \<Rightarrow> bool" where
  "slotNameChar c = (c \<in> set ''ABCDEFGHIJKLMNOPQRSTUVWXYZ0123456789_-'')"

definition matchSlot :: "string \<Rightarrow> string option" where
  "matchSlot href =
     (let n = length href; key = take (n - 9) (drop 7 href)
      in if 9 < n \<and> take 7 href = ''{{slot:'' \<and> drop (n - 2) href = ''}}''
            \<and> list_all slotNameChar key
         then Some key else None)"

definition resolveSlotHref :: "string \<Rightarrow> (string \<rightharpoonup> string) \<Rightarrow> propval" where
  "resolveSlotHref href slotUrls =
     (case matchSlot href of
        None \<Rightarrow> Own href
      | Some key \<Rightarrow> (case getProp slotUrls key of Some v \<Rightarrow> v | None \<Rightarrow> Own ''#''))"

text \<open>\<^verbatim>\<open>resolveSlotHref\<close> applied to a value of type \<^verbatim>\<open>any\<close>: a value that is not a
  string has no callable \<^verbatim>\<open>match\<close>.\<close>

definition resolveSlotHrefAny :: "json \<Rightarrow> (string \<rightharpoonup> string) \<Rightarrow> jsError + propval" where
  "resolveSlotHrefAny href slotUrls =
     (case href of JStr h \<Rightarrow> Inr (resolveSlotHref h slotUrls) | _ \<Rightarrow> Inl TypeError)"

definition escapeHtmlProp :: "propval \<Rightarrow> jsError + string" where
  "escapeHtmlProp v = (case v of Own s \<Rightarrow> Inr (escapeHtml s) | Inherited k \<Rightarrow> Inl TypeError)"

subsection \<open>Block Renderer\<close>

text \<open>\<^verbatim>\<open>blocks.find(b => b.type === t && b.enabled !== false)\<close>: the first element that
  satisfies the test; reading \<^verbatim>\<open>b.type\<close> of a null element throws.\<close>

definition isEnabledOfType :: "string \<Rightarrow> json \<Rightarrow> bool" where
  "isEnabledOfType t b = (field b ''type'' = Some (JStr t) \<and> field b ''enabled'' \<noteq> Some (JBool False))"

fun findBlock :: "string \<Rightarrow> json list \<Rightarrow> jsError + json option" where
  "findBlock t [] = Inr None"
| "findBlock t (b # blocks) =
     (if b = JNull then Inl TypeError
      else if isEnabledOfType t b then Inr (Some b)
      else findBlock t blocks)"

fun mapE :: "('a \<Rightarrow> jsError + 'b) \<Rightarrow> 'a list \<Rightarrow> jsError + 'b list" where
  "mapE f [] = Inr []"
| "mapE f (x # xs) =
     (case f x of
        Inl e \<Rightarrow> Inl e
      | Inr y \<Rightarrow> (case mapE f xs of Inl e \<Rightarrow> Inl e | Inr ys \<Rightarrow> Inr (y # ys)))"

definition ctaLink :: "string \<Rightarrow> json option \<Rightarrow> (string \<rightharpoonup> string) \<Rightarrow> jsError + string" where
  \<open>ctaLink cls cta slotUrls =
     (let href = (case optChain cta ''href'' of
                    Some (JStr h) \<Rightarrow> Some (resolveSlotHref h slotUrls)
                  | _ \<Rightarrow> None)
      in if truthy cta \<and> truthyProp href then
           bindE (case href of Some r \<Rightarrow> escapeHtmlProp r | None \<Rightarrow> Inl TypeError) (\<lambda>h.
           bindE (bindE (dot cta ''label'') escapeHtmlAny) (\<lambda>l.
           Inr (''<a class="'' @ cls @ ''" href="'' @ h @ ''">'' @ l @ ''</a>'')))
         else Inr [])\<close>

definition renderHero :: "json \<Rightarrow> (string \<rightharpoonup> string) \<Rightarrow> jsError + string" where
  \<open>renderHero hero slotUrls =
     (let h1 = nullish (optChain (field hero ''data'') ''h1'') (JStr []);
          sub = nullish (optChain (field hero ''data'') ''subheading'') (JStr []);
          cta1 = optChain (field hero ''data'') ''primaryCta'';
          cta2 = optChain (field hero ''data'') ''secondaryCta''
      in bindE (escapeHtmlAny (Some h1)) (\<lambda>eh1.
         bindE (escapeHtmlAny (Some sub)) (\<lambda>esub.
         bindE (ctaLink ''btn primary'' cta1 slotUrls) (\<lambda>a1.
         bindE (ctaLink ''btn'' cta2 slotUrls) (\<lambda>a2.
         Inr (''<div class="container"><div class="card">\<newline>      <h1>'' @ eh1
              @ ''</h1>\<newline>      <p class="small">'' @ esub
              @ ''</p>\<newline>      <div>\<newline>        '' @ a1
              @ ''\<newline>        '' @ a2
              @ ''\<newline>      </div>\<newline>    </div></div>''))))))\<close>

definition renderContent :: "json \<Rightarrow> jsError + string" where
  \<open>renderContent content =
     bindE (toString (nullish (optChain (field content ''data'') ''html'') (JStr []))) (\<lambda>html.
     Inr (''<div class="container"><div class="card">'' @ html @ ''</div></div>''))\<close>

text \<open>\<^verbatim>\<open>v.trim()\<close> is truthy when the string has a character that is not white space
  (code units below 256: tab, line feed, vertical tab, form feed, carriage return, space,
  no-break space).\<close>

definition isWhiteSpace :: "char \<Rightarrow> bool" where
  "isWhiteSpace c = (c \<in> {CHR 0x09, CHR 0x0A, CHR 0x0B, CHR 0x0C, CHR 0x0D, CHR 0x20, CHR 0xA0})"

definition trimTruthy :: "string \<Rightarrow> bool" where
  "trimTruthy v = list_ex (\<lambda>c. \<not> isWhiteSpace c) v"

text \<open>\<^verbatim>\<open>k.charAt(0).toUpperCase() + k.slice(1)\<close>, for the ASCII keys of the loop.\<close>

definition toUpperCaseChar :: "char \<Rightarrow> char" where
  "toUpperCaseChar c =
     (case map_of (zip ''abcdefghijklmnopqrstuvwxyz'' ''ABCDEFGHIJKLMNOPQRSTUVWXYZ'') c of
        Some u \<Rightarrow> u | None \<Rightarrow> c)"

definition capitalize :: "string \<Rightarrow> string" where
  "capitalize k = (case k of [] \<Rightarrow> [] | c # r \<Rightarrow> toUpperCaseChar c # r)"

definition contactLine :: "json \<Rightarrow> string \<Rightarrow> string list" where
  \<open>contactLine contacts k =
     (case optChain (field contacts ''data'') k of
        Some (JStr v) \<Rightarrow>
          if trimTruthy v
          then [''<div><b>'' @ escapeHtml (capitalize k) @ '':</b> '' @ escapeHtml v @ ''</div>'']
          else []
      | _ \<Rightarrow> [])\<close>

definition renderContacts :: "json \<Rightarrow> jsError + string" where
  \<open>renderContacts contacts =
     (let title = nullish (optChain (field contacts ''data'') ''title'') (JStr ''Contacts'');
          lines = concat (map (contactLine contacts)
                    [''company'', ''phone'', ''email'', ''address'', ''hours''])
      in bindE (escapeHtmlAny (Some title)) (\<lambda>t.
         Inr (''<div class="container"><div class="card"><h2>'' @ t @ ''</h2>''
              @ (if concat lines = [] then ''<p class="small">No details provided.</p>''
                 else concat lines)
              @ ''</div></div>'')))\<close>

definition faqItem :: "json \<Rightarrow> jsError + string" where
  \<open>faqItem it =
     bindE (dot (Some it) ''q'') (\<lambda>q0.
     bindE (dot (Some it) ''a'') (\<lambda>a0.
     bindE (escapeHtmlAny (Some (nullish q0 (JStr [])))) (\<lambda>q.
     bindE (escapeHtmlAny (Some (nullish a0 (JStr [])))) (\<lambda>a.
     Inr (''<details style="margin:10px 0"><summary><b>'' @ q
          @ ''</b></summary><div class="small" style="margin-top:6px">'' @ a
          @ ''</div></details>'')))))\<close>

definition renderFaq :: "json \<Rightarrow> jsError + string list" where
  \<open>renderFaq faq =
     (let items = (case optChain (field faq ''data'') ''items'' of Some (JArr xs) \<Rightarrow> xs | _ \<Rightarrow> [])
      in if items \<noteq> [] then
           bindE (mapE faqItem items) (\<lambda>list.
           Inr [''<div class="container"><div class="card"><h2>FAQ</h2>'' @ concat list
                @ ''</div></div>''])
         else Inr [])\<close>

definition footerItem :: "(string \<rightharpoonup> string) \<Rightarrow> json \<Rightarrow> jsError + string" where
  \<open>footerItem slotUrls it =
     bindE (dot (Some it) ''href'') (\<lambda>href.
     bindE (resolveSlotHrefAny (nullish href (JStr ''#'')) slotUrls) (\<lambda>r.
     bindE (escapeHtmlProp r) (\<lambda>h.
     bindE (dot (Some it) ''label'') (\<lambda>label.
     bindE (escapeHtmlAny (Some (nullish label (nullish href (JStr []))))) (\<lambda>l.
     Inr (''<li><a href="'' @ h @ ''">'' @ l @ ''</a></li>''))))))\<close>

definition renderFooterLinks :: "json \<Rightarrow> (string \<rightharpoonup> string) \<Rightarrow> jsError + string list" where
  \<open>renderFooterLinks footerLinks slotUrls =
     (case optChain (field footerLinks ''data'') ''items'' of
        Some (JArr items) \<Rightarrow>
          if items \<noteq> [] then
            bindE (mapE (footerItem slotUrls) items) (\<lambda>list.
            Inr [''<div class="container"><div class="card"><h3>Resources</h3><ul>''
                 @ concat list @ ''</ul></div></div>''])
          else Inr []
      | _ \<Rightarrow> Inr [])\<close>

text \<open>An optional part: nothing when no block was found.\<close>

definition whenFound :: "json option \<Rightarrow> (json \<Rightarrow> jsError + string list) \<Rightarrow> jsError + string list" where
  "whenFound b f = (case b of None \<Rightarrow> Inr [] | Some x \<Rightarrow> f x)"

definition single :: "jsError + string \<Rightarrow> jsError + string list" where
  "single r = bindE r (\<lambda>s. Inr [s])"

definition renderBlocksWithSlots :: "json list \<Rightarrow> (string \<rightharpoonup> string) \<Rightarrow> jsError + string" where
  \<open>renderBlocksWithSlots blocks slotUrls =
     bindE (findBlock ''hero'' blocks) (\<lambda>hero.
     bindE (whenFound hero (\<lambda>b. single (renderHero b slotUrls))) (\<lambda>p1.
     bindE (findBlock ''content'' blocks) (\<lambda>content.
     bindE (whenFound content (\<lambda>b. single (renderContent b))) (\<lambda>p2.
     bindE (findBlock ''contacts'' blocks) (\<lambda>contacts.
     bindE (whenFound contacts (\<lambda>b. single (renderContacts b))) (\<lambda>p3.
     bindE (findBlock ''faq'' blocks) (\<lambda>faq.
     bindE (whenFound faq renderFaq) (\<lambda>p4.
     bindE (findBlock ''footer_links'' blocks) (\<lambda>footerLinks.
     bindE (whenFound footerLinks (\<lambda>b. renderFooterLinks b slotUrls)) (\<lambda>p5.
     Inr (intercalate ''\<newline>''
            (p1 @ p2 @ p3 @ p4 @ p5
             @ [''<div class="container"><p class="small">Generated by Landing Factory (SSG v0.5)</p></div>'']))))))))))))\<close>

definition renderBlocks :: "json list \<Rightarrow> jsError + string" where
  "renderBlocks blocks = renderBlocksWithSlots blocks Map.empty"

subsection \<open>Notions used in the statements\<close>





text \<open>The URL an assignment contributes: \<^verbatim>\<open>a.linkLibrary?.targetUrl ?? "#"\<close>.\<close>

definition urlOf :: "linkAssignment \<Rightarrow> string" where
  "urlOf a = (case la_targetUrl a of Some u \<Rightarrow> u | None \<Rightarrow> ''#'')"


section \<open>Cadence Calculator\<close>

subsection \<open>The Date object\<close>

text \<open>
  A \<^verbatim>\<open>Date\<close> holds a time value: milliseconds since the epoch, an integer here
  (ECMAScript's TimeClip bound is not modelled). The getters and setters used by
  \<^verbatim>\<open>computeNextRunAt\<close> work on local time; the model takes the zone's offset
  \<open>tza\<close> (milliseconds) as a parameter and keeps it constant, so a zone's daylight-saving
  switches are not modelled. The functions below follow the abstract operations of the
  ECMAScript specification by name.
\<close>

definition msPerDay :: int where "msPerDay = 86400000"
definition msPerHour :: int where "msPerHour = 3600000"
definition msPerMinute :: int where "msPerMinute = 60000"
definition msPerSecond :: int where "msPerSecond = 1000"

definition Day :: "int \<Rightarrow> int" where "Day t = t div msPerDay"
definition TimeWithinDay :: "int \<Rightarrow> int" where "TimeWithinDay t = t mod msPerDay"

definition DayFromYear :: "int \<Rightarrow> int" where
  "DayFromYear y =
     365 * (y - 1970) + (y - 1969) div 4 - (y - 1901) div 100 + (y - 1601) div 400"

definition InLeapYear :: "int \<Rightarrow> int" where
  "InLeapYear y =
     (if y mod 4 \<noteq> 0 then 0 else if y mod 100 \<noteq> 0 then 1 else if y mod 400 \<noteq> 0 then 0 else 1)"

text \<open>The year of a day number: the largest \<open>y\<close> with \<open>DayFromYear y \<le> d\<close>. A 400-year
  cycle has 146097 days, so the estimate is off by at most one year.\<close>

definition YearFromDay :: "int \<Rightarrow> int" where
  "YearFromDay d =
     (let y = 1970 + (400 * d) div 146097
      in if DayFromYear (y + 1) \<le> d then y + 1
         else if DayFromYear y \<le> d then y
         else y - 1)"

definition YearFromTime :: "int \<Rightarrow> int" where
  "YearFromTime t = YearFromDay (Day t)"

definition DayWithinYear :: "int \<Rightarrow> int" where
  "DayWithinYear t = Day t - DayFromYear (YearFromTime t)"

definition MonthFromTime :: "int \<Rightarrow> int" where
  "MonthFromTime t =
     (let d = DayWithinYear t; l = InLeapYear (YearFromTime t)
      in if d < 31 then 0
         else if d < 59 + l then 1
         else if d < 90 + l then 2
         else if d < 120 + l then 3
         else if d < 151 + l then 4
         else if d < 181 + l then 5
         else if d < 212 + l then 6
         else if d < 243 + l then 7
         else if d < 273 + l then 8
         else if d < 304 + l then 9
         else if d < 334 + l then 10
         else 11)"

text \<open>The day within the year on which month \<open>m\<close> (0 to 11) starts.\<close>

definition monthStart :: "int \<Rightarrow> int \<Rightarrow> int" where
  "monthStart m l =
     (if m = 0 then 0
      else if m = 1 then 31
      else if m = 2 then 59 + l
      else if m = 3 then 90 + l
      else if m = 4 then 120 + l
      else if m = 5 then 151 + l
      else if m = 6 then 181 + l
      else if m = 7 then 212 + l
      else if m = 8 then 243 + l
      else if m = 9 then 273 + l
      else if m = 10 then 304 + l
      else 334 + l)"

definition DateFromTime :: "int \<Rightarrow> int" where
  "DateFromTime t =
     DayWithinYear t + 1 - monthStart (MonthFromTime t) (InLeapYear (YearFromTime t))"

definition WeekDay :: "int \<Rightarrow> int" where "WeekDay t = (Day t + 4) mod 7"

definition HourFromTime :: "int \<Rightarrow> int" where "HourFromTime t = (t div msPerHour) mod 24"
definition MinFromTime :: "int \<Rightarrow> int" where "MinFromTime t = (t div msPerMinute) mod 60"
definition SecFromTime :: "int \<Rightarrow> int" where "SecFromTime t = (t div msPerSecond) mod 60"
definition msFromTime :: "int \<Rightarrow> int" where "msFromTime t = t mod msPerSecond"

definition MakeTime :: "int \<Rightarrow> int \<Rightarrow> int \<Rightarrow> int \<Rightarrow> int" where
  "MakeTime h m s milli = h * msPerHour + m * msPerMinute + s * msPerSecond + milli"

definition MakeDay :: "int \<Rightarrow> int \<Rightarrow> int \<Rightarrow> int" where
  "MakeDay year month date =
     (let ym = year + month div 12; mn = month mod 12
      in DayFromYear ym + monthStart mn (InLeapYear ym) + date - 1)"

definition MakeDate :: "int \<Rightarrow> int \<Rightarrow> int" where
  "MakeDate day time = day * msPerDay + time"

definition LocalTime :: "int \<Rightarrow> int \<Rightarrow> int" where "LocalTime tza t = t + tza"
definition UTC :: "int \<Rightarrow> int \<Rightarrow> int" where "UTC tza t = t - tza"

definition getDate :: "int \<Rightarrow> int \<Rightarrow> int" where
  "getDate tza d = DateFromTime (LocalTime tza d)"

definition getDay :: "int \<Rightarrow> int \<Rightarrow> int" where
  "getDay tza d = WeekDay (LocalTime tza d)"

definition getMinutes :: "int \<Rightarrow> int \<Rightarrow> int" where
  "getMinutes tza d = MinFromTime (LocalTime tza d)"

definition setDate :: "int \<Rightarrow> int \<Rightarrow> int \<Rightarrow> int" where
  "setDate tza d dt =
     (let t = LocalTime tza d
      in UTC tza (MakeDate (MakeDay (YearFromTime t) (MonthFromTime t) dt) (TimeWithinDay t)))"

definition setHours :: "int \<Rightarrow> int \<Rightarrow> int \<Rightarrow> int \<Rightarrow> int \<Rightarrow> int \<Rightarrow> int" where
  "setHours tza d h m s milli =
     (let t = LocalTime tza d in UTC tza (MakeDate (Day t) (MakeTime h m s milli)))"

definition setMinutes :: "int \<Rightarrow> int \<Rightarrow> int \<Rightarrow> int" where
  "setMinutes tza d m =
     (let t = LocalTime tza d
      in UTC tza (MakeDate (Day t) (MakeTime (HourFromTime t) m (SecFromTime t) (msFromTime t))))"

subsection \<open>computeNextRunAt\<close>

text \<open>
  \<^verbatim>\<open>cadenceJson\<close> is read only through \<^verbatim>\<open>Number(cadenceJson?.k ?? dflt)\<close>. The model
  keeps its integral numeric fields: \<open>cadenceJson k = None\<close> when the document, or its key
  \<open>k\<close>, is absent or null (the cases in which \<^verbatim>\<open>??\<close> takes the default). Fields
  that are fractional or not numbers are outside the model.
\<close>

datatype cadenceType = every_n_days | weekly | cron

type_synonym cadenceJson = "string \<Rightarrow> int option"

definition numberOr :: "int option \<Rightarrow> int \<Rightarrow> int" where
  "numberOr v dflt = (case v of Some k \<Rightarrow> k | None \<Rightarrow> dflt)"

definition computeNextRunAt :: "int \<Rightarrow> int \<Rightarrow> cadenceType \<Rightarrow> cadenceJson \<Rightarrow> int" where
  "computeNextRunAt tza now cadenceType cadenceJson =
     (let d = now in
      if cadenceType = every_n_days then
        (let n = numberOr (cadenceJson ''n'') 7
         in setDate tza d (getDate tza d + max 1 n))
      else if cadenceType = weekly then
        (let dow = numberOr (cadenceJson ''dow'') 1;
             hour = numberOr (cadenceJson ''hour'') 10;
             minute = numberOr (cadenceJson ''minute'') 0;
             currentDow = ((getDay tza d + 6) mod 7) + 1;
             addDays = dow - currentDow;
             addDays = (if addDays \<le> 0 then addDays + 7 else addDays);
             d = setDate tza d (getDate tza d + addDays)
         in setHours tza d hour minute 0 0)
      else
        (let minutes = numberOr (cadenceJson ''minutes'') 60
         in setMinutes tza d (getMinutes tza d + max 5 minutes)))"

section \<open>Theorems\<close>

subsection \<open>Theme Compiler\<close>

text \<open>The regular expression's matches, written out: a non-empty run of digits followed by
  one of the four units.\<close>

lemma isCssLength_iff:
  "isCssLength v \<longleftrightarrow>
     (\<exists>ds u. v = ds @ u \<and> ds \<noteq> [] \<and> (\<forall>c \<in> set ds. isDigit c)
        \<and> u \<in> {''px'', ''rem'', ''em'', ''%''})"
proof
  assume "isCssLength v"
  then obtain u where u: "u \<in> {''px'', ''rem'', ''em'', ''%''}" "hasUnit v u"
    by (auto simp: isCssLength_def)
  let ?ds = "take (length v - length u) v"
  from u(2) have d: "drop (length v - length u) v = u" by (simp add: hasUnit_def)
  have "v = ?ds @ drop (length v - length u) v" by simp
  then have "v = ?ds @ u" by (simp only: d)
  moreover from u(2) have "?ds \<noteq> []" "\<forall>c \<in> set ?ds. isDigit c"
    by (auto simp: hasUnit_def list_all_iff)
  ultimately have "v = ?ds @ u" "?ds \<noteq> []" "\<forall>c \<in> set ?ds. isDigit c" by blast+
  with u(1) show "\<exists>ds u. v = ds @ u \<and> ds \<noteq> [] \<and> (\<forall>c \<in> set ds. isDigit c)
        \<and> u \<in> {''px'', ''rem'', ''em'', ''%''}"
    by blast
next
  assume "\<exists>ds u. v = ds @ u \<and> ds \<noteq> [] \<and> (\<forall>c \<in> set ds. isDigit c)
        \<and> u \<in> {''px'', ''rem'', ''em'', ''%''}"
  then obtain ds u where "v = ds @ u" "ds \<noteq> []" "\<forall>c \<in> set ds. isDigit c"
    "u \<in> {''px'', ''rem'', ''em'', ''%''}"
    by blast
  then have "hasUnit v u" by (simp add: hasUnit_def list_all_iff)
  with \<open>u \<in> _\<close> show "isCssLength v" by (auto simp: isCssLength_def)
qed

lemma radius_tokens:
  "radiusTokenToPx (Some (JStr ''sm'')) fb = Own ''8px''"
  "radiusTokenToPx (Some (JStr ''md'')) fb = Own ''12px''"
  "radiusTokenToPx (Some (JStr ''lg'')) fb = Own ''14px''"
  "radiusTokenToPx (Some (JStr ''xl'')) fb = Own ''16px''"
  "radiusTokenToPx (Some (JStr ''2xl'')) fb = Own ''20px''"
  by (simp_all add: radiusTokenToPx_def isCssLength_def hasUnit_def isDigit_def
      getProp_def radiusMap_def)

lemma radius_css_length:
  "isCssLength s \<Longrightarrow> radiusTokenToPx (Some (JStr s)) fb = Own s"
  by (auto simp: radiusTokenToPx_def isCssLength_def hasUnit_def)

lemma radius_not_string:
  "(\<forall>s. v \<noteq> Some (JStr s)) \<Longrightarrow> radiusTokenToPx v fb = Own fb"
  by (auto simp: radiusTokenToPx_def split: option.splits json.splits)

lemma radius_other_string:
  "\<not> isCssLength s \<Longrightarrow> s \<notin> {''sm'', ''md'', ''lg'', ''xl'', ''2xl''}
     \<Longrightarrow> s \<notin> set objectPrototypeKeys
     \<Longrightarrow> radiusTokenToPx (Some (JStr s)) fb = Own fb"
  by (simp add: radiusTokenToPx_def getProp_def radiusMap_def)

text \<open>
  Claim C4. The radius resolution returns the table's value for the five tokens, the value
  itself for a literal CSS length, and the caller's fallback for any other value. The
  three lemmas above give this for every value that is not the name of a member of
  \<^verbatim>\<open>Object.prototype\<close>. For such a name the code does not return the fallback:
  \<^verbatim>\<open>map[v] ?? fallbackPx\<close> finds the inherited member, which is neither null nor
  undefined, and returns it. The value \<^verbatim>\<open>"constructor"\<close> with fallback
  \<^verbatim>\<open>"16px"\<close> is such an input.
\<close>

theorem radius_inherited_member_returned:
  "radiusTokenToPx (Some (JStr ''constructor'')) ''16px'' = Inherited ''constructor''
   \<and> radiusTokenToPx (Some (JStr ''constructor'')) ''16px'' \<noteq> Own ''16px''"
  by (simp add: radiusTokenToPx_def isCssLength_def hasUnit_def getProp_def radiusMap_def
      objectPrototypeKeys_def)

subsection \<open>Page Materializer\<close>

lemma stripLeadingSlash_append:
  "r \<noteq> [] \<Longrightarrow> stripLeadingSlash (r @ s) = stripLeadingSlash r @ s"
  by (cases r) (simp_all add: stripLeadingSlash_def)

lemma stripTrailingSlash_snoc: "stripTrailingSlash (s @ ''/'') = s"
  by (simp add: stripTrailingSlash_def)







subsection \<open>Block Renderer\<close>



lemma isEnabledOfType_not_null: "isEnabledOfType t b \<Longrightarrow> b \<noteq> JNull"
  by (auto simp: isEnabledOfType_def field_def)
















subsection \<open>Slot Resolver\<close>

lemma slotLoop_first_enabled:
  assumes "\<forall>a \<in> set links. la_isEnabled a \<longrightarrow> urlOf a \<noteq> []"
    and "\<forall>k u. slotUrls k = Some u \<longrightarrow> u \<noteq> []"
    and "p \<notin> set objectPrototypeKeys"
  shows "slotLoop links slotUrls p =
           (case slotUrls p of
              Some u \<Rightarrow> Some u
            | None \<Rightarrow> map_option urlOf (find (\<lambda>a. la_isEnabled a \<and> la_placement a = p) links))"
  using assms
proof (induction links arbitrary: slotUrls)
  case Nil
  then show ?case by (simp split: option.splits)
next
  case (Cons a links)
  show ?case
  proof (cases "la_isEnabled a \<and> \<not> truthyProp (getProp slotUrls (la_placement a))")
    case False
    then have step: "slotLoop (a # links) slotUrls = slotLoop links slotUrls" by auto
    have "slotUrls p \<noteq> None" if "la_isEnabled a" "la_placement a = p"
      using that False Cons.prems(3) by (auto simp: truthyProp_def getProp_def split: option.splits)
    then show ?thesis
      unfolding step using Cons.IH [of slotUrls] Cons.prems
      by (auto split: option.splits)
  next
    case True
    let ?m = "slotUrls(la_placement a \<mapsto> urlOf a)"
    from True have step: "slotLoop (a # links) slotUrls = slotLoop links ?m"
      by (simp add: urlOf_def)
    have none: "slotUrls (la_placement a) = None"
      using True Cons.prems(2)
      by (auto simp: truthyProp_def getProp_def split: option.splits if_splits)
    have inv: "\<forall>k u. ?m k = Some u \<longrightarrow> u \<noteq> []"
      using Cons.prems(1,2) True by auto
    have "slotLoop links ?m p =
           (case ?m p of
              Some u \<Rightarrow> Some u
            | None \<Rightarrow> map_option urlOf (find (\<lambda>a. la_isEnabled a \<and> la_placement a = p) links))"
    proof (rule Cons.IH)
      show "\<forall>a \<in> set links. la_isEnabled a \<longrightarrow> urlOf a \<noteq> []" using Cons.prems(1) by simp
      show "\<forall>k u. ?m k = Some u \<longrightarrow> u \<noteq> []" by (rule inv)
      show "p \<notin> set objectPrototypeKeys" by (rule Cons.prems(3))
    qed
    then show ?thesis
      unfolding step using True none
      by (cases "la_placement a = p") (auto split: option.splits)
  qed
qed

text \<open>When no enabled assignment has an empty target URL, a placement that is not the name
  of a member of \<^verbatim>\<open>Object.prototype\<close> resolves to the URL of its first enabled
  assignment.\<close>

lemma resolveSlots_first_enabled:
  assumes "\<forall>a \<in> set links. la_isEnabled a \<longrightarrow> la_targetUrl a \<noteq> Some []"
    and "p \<notin> set objectPrototypeKeys"
  shows "resolveSlots links p
           = map_option urlOf (find (\<lambda>a. la_isEnabled a \<and> la_placement a = p) links)"
proof -
  have "\<forall>a \<in> set links. la_isEnabled a \<longrightarrow> urlOf a \<noteq> []"
    using assms(1) by (auto simp: urlOf_def split: option.splits)
  then show ?thesis
    unfolding resolveSlots_def using slotLoop_first_enabled [of links Map.empty p] assms(2)
    by simp
qed

lemma matchSlot_iff:
  "matchSlot href = Some key \<longleftrightarrow>
     href = ''{{slot:'' @ key @ ''}}'' \<and> key \<noteq> [] \<and> (\<forall>c \<in> set key. slotNameChar c)"
proof
  assume "matchSlot href = Some key"
  then have h: "9 < length href" "take 7 href = ''{{slot:''"
    "drop (length href - 2) href = ''}}''" "list_all slotNameChar key"
    "key = take (length href - 9) (drop 7 href)"
    by (auto simp: matchSlot_def Let_def split: if_splits)
  have "href = take 7 href @ drop 7 href" by simp
  also have "drop 7 href = take (length href - 9) (drop 7 href) @ drop (length href - 9) (drop 7 href)"
    by (simp only: append_take_drop_id)
  also have "drop (length href - 9) (drop 7 href) = drop (length href - 2) href"
    using h(1) by simp
  finally have "href = ''{{slot:'' @ key @ ''}}''"
    using h(2,3,5) by simp
  moreover have "key \<noteq> []" using h(1,5) by auto
  ultimately show "href = ''{{slot:'' @ key @ ''}}'' \<and> key \<noteq> [] \<and> (\<forall>c \<in> set key. slotNameChar c)"
    using h(4) by (simp add: list_all_iff)
next
  assume "href = ''{{slot:'' @ key @ ''}}'' \<and> key \<noteq> [] \<and> (\<forall>c \<in> set key. slotNameChar c)"
  then show "matchSlot href = Some key"
    by (cases key) (auto simp: matchSlot_def Let_def list_all_iff)
qed

lemma inherited_name_has_lower_case:
  "k \<in> set objectPrototypeKeys \<Longrightarrow> CHR ''o'' \<in> set k \<or> CHR ''e'' \<in> set k"
  by (auto simp: objectPrototypeKeys_def)

lemma slot_name_not_inherited:
  assumes "\<forall>c \<in> set key. slotNameChar c"
  shows "key \<notin> set objectPrototypeKeys"
proof
  assume "key \<in> set objectPrototypeKeys"
  then have "CHR ''o'' \<in> set key \<or> CHR ''e'' \<in> set key"
    by (rule inherited_name_has_lower_case)
  with assms have "slotNameChar CHR ''o'' \<or> slotNameChar CHR ''e''" by blast
  then show False by (simp add: slotNameChar_def)
qed

text \<open>A reference of the exact form is replaced by the placement's URL, or by \<^verbatim>\<open>#\<close>;
  any other href is returned unchanged.\<close>

lemma resolveSlotHref_reference:
  assumes "key \<noteq> []" "\<forall>c \<in> set key. slotNameChar c"
  shows "resolveSlotHref (''{{slot:'' @ key @ ''}}'') slotUrls
           = Own (case slotUrls key of Some u \<Rightarrow> u | None \<Rightarrow> ''#'')"
proof -
  have "matchSlot (''{{slot:'' @ key @ ''}}'') = Some key"
    using assms by (simp only: matchSlot_iff) simp
  then show ?thesis
    using slot_name_not_inherited [OF assms(2)]
    by (simp add: resolveSlotHref_def getProp_def split: option.splits)
qed

lemma resolveSlotHref_other:
  assumes "\<not> (\<exists>key. href = ''{{slot:'' @ key @ ''}}'' \<and> key \<noteq> [] \<and> (\<forall>c \<in> set key. slotNameChar c))"
  shows "resolveSlotHref href slotUrls = Own href"
proof -
  have "matchSlot href = None"
    using assms matchSlot_iff [of href] by (cases "matchSlot href") auto
  then show ?thesis by (simp add: resolveSlotHref_def)
qed

text \<open>
  Claim C5. The Slot Resolver maps each placement to the target URL of the first enabled
  assignment for it, skipping disabled assignments and ignoring later ones; an href of the
  exact form \<^verbatim>\<open>{{slot:NAME}}\<close> is replaced by the placement's URL or by \<^verbatim>\<open>#\<close>,
  any other href is returned unchanged. The lemmas above give the href rule as stated, and
  the first-enabled rule for lists in which no enabled assignment has an empty target URL.
  With an empty target URL the code does not keep the first enabled assignment: the test
  \<^verbatim>\<open>if (slotUrls[a.placement]) continue\<close> takes the stored empty string for a
  placement not yet resolved, and the next enabled assignment replaces it.
\<close>

theorem slot_first_enabled_overridden:
  "resolveSlots
     [\<lparr>la_placement = ''HERO_CTA'', la_isEnabled = True, la_targetUrl = Some []\<rparr>,
      \<lparr>la_placement = ''HERO_CTA'', la_isEnabled = True, la_targetUrl = Some ''https://b.example/''\<rparr>]
     ''HERO_CTA'' = Some ''https://b.example/''
   \<and> resolveSlots
     [\<lparr>la_placement = ''HERO_CTA'', la_isEnabled = True, la_targetUrl = Some []\<rparr>,
      \<lparr>la_placement = ''HERO_CTA'', la_isEnabled = True, la_targetUrl = Some ''https://b.example/''\<rparr>]
     ''HERO_CTA'' \<noteq> Some []"
  by (simp add: resolveSlots_def truthyProp_def getProp_def objectPrototypeKeys_def)

subsection \<open>Cadence Calculator\<close>

lemma MonthFromTime_range: "0 \<le> MonthFromTime t \<and> MonthFromTime t \<le> 11"
  by (simp add: MonthFromTime_def Let_def)

lemma setDate_getDate: "setDate tza d (getDate tza d + k) = d + k * msPerDay"
proof -
  let ?t = "LocalTime tza d"
  have m: "MonthFromTime ?t div 12 = 0" "MonthFromTime ?t mod 12 = MonthFromTime ?t"
    using MonthFromTime_range [of ?t] by simp_all
  have "MakeDay (YearFromTime ?t) (MonthFromTime ?t) (DateFromTime ?t + k) = Day ?t + k"
    by (simp add: MakeDay_def m DateFromTime_def DayWithinYear_def)
  then show ?thesis
    by (simp add: setDate_def getDate_def MakeDate_def Day_def TimeWithinDay_def
        LocalTime_def UTC_def algebra_simps)
qed





lemma iso_dow: "0 \<le> (w::int) \<Longrightarrow> w < 7 \<Longrightarrow> (w + 6) mod 7 + 1 = (if w = 0 then 7 else w)"
  by (cases "w = 0") (simp_all add: mod_pos_pos_trivial, presburger)

lemma currentDow_iso:
  "((getDay tza d + 6) mod 7) + 1 =
     (if WeekDay (LocalTime tza d) = 0 then 7 else WeekDay (LocalTime tza d))"
proof -
  have "0 \<le> WeekDay (LocalTime tza d)" "WeekDay (LocalTime tza d) < 7"
    by (simp_all add: WeekDay_def)
  then show ?thesis unfolding getDay_def by (rule iso_dow)
qed

lemma LocalTime_add: "LocalTime tza (t + k) = LocalTime tza t + k"
  by (simp add: LocalTime_def)

lemma Day_add_days: "Day (t + k * msPerDay) = Day t + k"
  by (simp add: Day_def msPerDay_def)


lemma setHours_local:
  "LocalTime tza (setHours tza d h m 0 0) = MakeDate (Day (LocalTime tza d)) (MakeTime h m 0 0)"
  by (simp add: setHours_def LocalTime_def UTC_def)

text \<open>The weekly branch, as a local time: the day moves by the offset, the time of day is
  built from hour and minute.\<close>

lemma weekly_local:
  "LocalTime tza (computeNextRunAt tza now weekly cj) =
     MakeDate
       (Day (LocalTime tza now) +
          (let dow = numberOr (cj ''dow'') 1;
               cur = (if WeekDay (LocalTime tza now) = 0 then 7 else WeekDay (LocalTime tza now))
           in if dow - cur \<le> 0 then dow - cur + 7 else dow - cur))
       (MakeTime (numberOr (cj ''hour'') 10) (numberOr (cj ''minute'') 0) 0 0)"
  unfolding computeNextRunAt_def Let_def
  by (simp only: cadenceType.distinct if_False if_True refl setDate_getDate setHours_local
      currentDow_iso Day_add_days LocalTime_add)

lemma day_time_readback:
  assumes "0 \<le> h" "h \<le> 23" "0 \<le> m" "m \<le> 59"
  shows "Day (MakeDate D (MakeTime h m 0 0)) = D"
    and "HourFromTime (MakeDate D (MakeTime h m 0 0)) = h"
    and "MinFromTime (MakeDate D (MakeTime h m 0 0)) = m"
    and "SecFromTime (MakeDate D (MakeTime h m 0 0)) = 0"
    and "msFromTime (MakeDate D (MakeTime h m 0 0)) = 0"
proof -
  let ?x = "D * 86400000 + h * 3600000 + m * 60000"
  have x: "MakeDate D (MakeTime h m 0 0) = ?x"
    by (simp add: MakeDate_def MakeTime_def msPerDay_def msPerHour_def msPerMinute_def)
  have r: "0 \<le> h * 3600000 + m * 60000" "h * 3600000 + m * 60000 < 86400000"
    using assms by linarith+
  have "?x div 86400000 = D" using r by (simp add: div_pos_pos_trivial add.assoc)
  then show "Day (MakeDate D (MakeTime h m 0 0)) = D" by (simp add: x Day_def msPerDay_def)
  have "?x = (D * 24 + h) * 3600000 + m * 60000" by simp
  moreover have "0 \<le> m * 60000" "m * 60000 < 3600000" using assms by linarith+
  ultimately have "?x div 3600000 = D * 24 + h" by (simp add: div_pos_pos_trivial)
  then show "HourFromTime (MakeDate D (MakeTime h m 0 0)) = h"
    using assms by (simp add: x HourFromTime_def msPerHour_def mod_pos_pos_trivial)
  have "?x = ((D * 24 + h) * 60 + m) * 60000" by simp
  then have "?x div 60000 = (D * 24 + h) * 60 + m" by simp
  moreover have "((D * 24 + h) * 60 + m) mod 60 = m mod 60" by (simp only: mod_mult_self3)
  moreover have "m mod 60 = m" using assms by (simp add: mod_pos_pos_trivial)
  ultimately show "MinFromTime (MakeDate D (MakeTime h m 0 0)) = m"
    by (simp only: x MinFromTime_def msPerMinute_def)
  have "?x = (((D * 24 + h) * 60 + m) * 60) * 1000" by simp
  then have "?x div 1000 = ((D * 24 + h) * 60 + m) * 60" "?x mod 1000 = 0" by simp_all
  then show "SecFromTime (MakeDate D (MakeTime h m 0 0)) = 0"
    and "msFromTime (MakeDate D (MakeTime h m 0 0)) = 0"
    by (simp_all add: x SecFromTime_def msFromTime_def msPerSecond_def)
qed

lemma numberOr_case: "numberOr v d = (case v of None \<Rightarrow> d | Some k \<Rightarrow> k)"
  by (simp add: numberOr_def split: option.splits)


lemma week_shift:
  fixes D dow :: int
  assumes "1 \<le> dow" "dow \<le> 7"
  defines "w \<equiv> (D + 4) mod 7"
  defines "cur \<equiv> (if w = 0 then 7 else w)"
  defines "add \<equiv> (if dow - cur \<le> 0 then dow - cur + 7 else dow - cur)"
  shows "(D + add + 3) div 7 = (D + 3) div 7 + (if dow \<le> cur then 1 else 0)"
    and "(D + add + 4) mod 7 = dow mod 7"
    and "1 \<le> add" and "add \<le> 7"
proof -
  define a where "a = (D + 3) mod 7"
  define q where "q = (D + 3) div 7"
  have a: "0 \<le> a" "a < 7" by (simp_all add: a_def)
  have "w = (a + 1) mod 7" unfolding w_def a_def by (simp add: mod_add_left_eq add.assoc)
  then have cur: "cur = a + 1"
    using a unfolding cur_def by (cases "a = 6") (simp_all add: mod_pos_pos_trivial)
  have D: "D = 7 * q + a - 3" by (simp add: a_def q_def algebra_simps)
  show "1 \<le> add" "add \<le> 7" using assms(1,2) a unfolding add_def cur by auto
  show "(D + add + 3) div 7 = (D + 3) div 7 + (if dow \<le> cur then 1 else 0)"
  proof (cases "dow \<le> cur")
    case True
    then have "add = dow - (a + 1) + 7" by (simp add: add_def cur)
    then have "D + add + 3 = (dow - 1) + (q + 1) * 7" by (simp add: D)
    then have "(D + add + 3) div 7 = (dow - 1) div 7 + (q + 1)" by (simp only: div_mult_self1)
    then show ?thesis using True assms(1,2) by (simp add: div_pos_pos_trivial q_def)
  next
    case False
    then have "add = dow - (a + 1)" by (simp add: add_def cur)
    then have "D + add + 3 = (dow - 1) + q * 7" by (simp add: D)
    then have "(D + add + 3) div 7 = (dow - 1) div 7 + q" by (simp only: div_mult_self1)
    then show ?thesis using False assms(1,2) by (simp add: div_pos_pos_trivial q_def)
  qed
  have "add = dow - (a + 1) + (if dow \<le> cur then 7 else 0)" by (simp add: add_def cur)
  then have "D + add + 4 = dow + (q + (if dow \<le> cur then 1 else 0)) * 7"
    by (simp add: D)
  then show "(D + add + 4) mod 7 = dow mod 7" by (simp only: mod_mult_self1)
qed

lemma weekly_as_MakeDate:
  fixes tza now :: int and cj :: cadenceJson
  defines "lt \<equiv> LocalTime tza now"
  defines "dow \<equiv> (case cj ''dow'' of None \<Rightarrow> 1 | Some v \<Rightarrow> v)"
  defines "hour \<equiv> (case cj ''hour'' of None \<Rightarrow> 10 | Some v \<Rightarrow> v)"
  defines "minute \<equiv> (case cj ''minute'' of None \<Rightarrow> 0 | Some v \<Rightarrow> v)"
  defines "cur \<equiv> (if WeekDay lt = 0 then 7 else WeekDay lt)"
  defines "add \<equiv> (if dow \<le> cur then dow - cur + 7 else dow - cur)"
  shows "LocalTime tza (computeNextRunAt tza now weekly cj)
           = MakeDate (Day lt + add) (MakeTime hour minute 0 0)"
proof -
  have "add = (if dow - cur \<le> 0 then dow - cur + 7 else dow - cur)"
    by (simp add: add_def)
  then show ?thesis
    unfolding weekly_local Let_def numberOr_case
    by (simp only: lt_def dow_def hour_def minute_def cur_def)
qed




text \<open>
  Claim C10. For \<open>dow\<close> from 1 to 7, \<open>hour\<close> from 0 to 23 and \<open>minute\<close> from 0 to 59 (after
  the defaults), the weekly result is strictly later than the current time, and its local
  calendar day is between one and seven days after the current local day.
\<close>

theorem weekly_strictly_later:
  assumes "1 \<le> (case cj ''dow'' of None \<Rightarrow> 1 | Some v \<Rightarrow> v)"
      and "(case cj ''dow'' of None \<Rightarrow> 1 | Some v \<Rightarrow> v) \<le> 7"
      and "0 \<le> (case cj ''hour'' of None \<Rightarrow> 10 | Some v \<Rightarrow> v)"
      and "(case cj ''hour'' of None \<Rightarrow> 10 | Some v \<Rightarrow> v) \<le> 23"
      and "0 \<le> (case cj ''minute'' of None \<Rightarrow> 0 | Some v \<Rightarrow> v)"
      and "(case cj ''minute'' of None \<Rightarrow> 0 | Some v \<Rightarrow> v) \<le> 59"
  shows "now < computeNextRunAt tza now weekly cj
     \<and> 1 \<le> Day (LocalTime tza (computeNextRunAt tza now weekly cj)) - Day (LocalTime tza now)
     \<and> Day (LocalTime tza (computeNextRunAt tza now weekly cj)) - Day (LocalTime tza now) \<le> 7"
proof -
  define lt where "lt = LocalTime tza now"
  define dow where "dow = (case cj ''dow'' of None \<Rightarrow> 1 | Some v \<Rightarrow> v)"
  define hour where "hour = (case cj ''hour'' of None \<Rightarrow> 10 | Some v \<Rightarrow> v)"
  define minute where "minute = (case cj ''minute'' of None \<Rightarrow> 0 | Some v \<Rightarrow> v)"
  define cur where "cur = (if WeekDay lt = 0 then 7 else WeekDay lt)"
  define add where "add = (if dow \<le> cur then dow - cur + 7 else dow - cur)"
  define r where "r = LocalTime tza (computeNextRunAt tza now weekly cj)"
  have rng: "1 \<le> dow" "dow \<le> 7" "0 \<le> hour" "hour \<le> 23" "0 \<le> minute" "minute \<le> 59"
    using assms unfolding dow_def hour_def minute_def by blast+
  have r: "r = MakeDate (Day lt + add) (MakeTime hour minute 0 0)"
    unfolding r_def lt_def dow_def hour_def minute_def cur_def add_def
    by (rule weekly_as_MakeDate)
  have add': "add = (if dow - cur \<le> 0 then dow - cur + 7 else dow - cur)"
    by (simp add: add_def)
  have cur': "cur = (if (Day lt + 4) mod 7 = 0 then 7 else (Day lt + 4) mod 7)"
    by (simp add: cur_def WeekDay_def)
  have a: "1 \<le> add" "add \<le> 7"
    using week_shift(3,4) [of dow "Day lt"] rng(1,2) unfolding add' cur' by blast+
  have d: "Day r = Day lt + add" unfolding r using rng by (simp add: day_time_readback)
  have "lt < (Day lt + 1) * msPerDay"
  proof -
    have "lt mod msPerDay < msPerDay" by (simp add: msPerDay_def)
    moreover have "lt = Day lt * msPerDay + lt mod msPerDay" by (simp add: Day_def)
    ultimately show ?thesis by (simp add: algebra_simps)
  qed
  also have "\<dots> \<le> (Day lt + add) * msPerDay" using a(1) by (simp add: msPerDay_def)
  also have "\<dots> \<le> r"
    using rng by (simp add: r MakeDate_def MakeTime_def msPerHour_def msPerMinute_def)
  finally have "lt < r" .
  then have "now < computeNextRunAt tza now weekly cj"
    by (simp add: lt_def r_def LocalTime_def)
  then show ?thesis using d a by (simp add: r_def lt_def)
qed

theorem weekly_strictly_later_witness:
  "(0::int) < computeNextRunAt 0 0 weekly (Map.empty(''dow'' \<mapsto> 4, ''hour'' \<mapsto> 0))
   \<and> Day (LocalTime 0 (computeNextRunAt 0 0 weekly (Map.empty(''dow'' \<mapsto> 4, ''hour'' \<mapsto> 0))))
       - Day (LocalTime 0 0) \<le> 7"
  using weekly_strictly_later [of "Map.empty(''dow'' \<mapsto> 4, ''hour'' \<mapsto> 0)" 0 0]
  by simp

end
